theory Spec2Isabelle
  imports Main "HOL-Library.AList" "HOL-Library.Product_Lexorder"
begin

section \<open>Python values, dictionaries and dates\<close>

text \<open>
  The metadata mapping handed to the protocol layer is a Python dictionary whose values
  are dynamically typed: the fixed fields are lists of strings or \<open>None\<close>, the values of
  the free-form extras are whatever was stored. \<open>pyval\<close> is that value type. A dictionary
  is an association list that is read by key; \<open>d[k] = v\<close> replaces the binding of \<open>k\<close>
  or adds one, and \<open>dict(pairs)\<close> inserts the pairs from left to right, so that a later
  pair wins. Keys are plain (ASCII) strings, on which \<open>str(key)\<close> is the identity.
\<close>

datatype pyval =
    PyNone
  | PyInt int
  | PyStr string
  | PyList "pyval list"
  | PyDict "(string \<times> pyval) list"

type_synonym pydict = "(string \<times> pyval) list"

fun isinstance_list :: "pyval \<Rightarrow> bool" where
  "isinstance_list (PyList _) = True"
| "isinstance_list _ = False"

definition dict_setitem :: "pydict \<Rightarrow> string \<Rightarrow> pyval \<Rightarrow> pydict" where
  "dict_setitem d k v = AList.update k v d"

definition py_dict :: "(string \<times> pyval) list \<Rightarrow> pydict" where
  "py_dict pairs = foldl (\<lambda>d (k, v). dict_setitem d k v) [] pairs"

definition items :: "pydict \<Rightarrow> (string \<times> pyval) list" where
  "items d = d"

definition contains_key :: "string \<Rightarrow> pydict \<Rightarrow> bool" where
  "contains_key k d = (k \<in> fst ` set d)"

definition dict_get_item :: "pydict \<Rightarrow> string \<Rightarrow> pyval" where
  \<comment> \<open>\<open>d.get(k)\<close>: the value, or \<open>None\<close> for a missing key\<close>
  "dict_get_item d k = (case map_of d k of None \<Rightarrow> PyNone | Some v \<Rightarrow> v)"

text \<open>
  Fields of the package dictionary are read with \<open>package.get(key, default)\<close>; a string
  field is modelled as a \<open>string option\<close>, \<open>None\<close> for a missing key. Truthiness follows Python: \<open>None\<close> and the empty string are false, any object
  (a date, a database row) is true, the integer \<open>0\<close> is false like \<open>None\<close>.
\<close>

definition get_default :: "'a option \<Rightarrow> 'a \<Rightarrow> 'a" where
  "get_default field dflt = (case field of None \<Rightarrow> dflt | Some v \<Rightarrow> v)"

definition truthy_str :: "string option \<Rightarrow> bool" where
  "truthy_str s = (case s of None \<Rightarrow> False | Some v \<Rightarrow> v \<noteq> [])"

definition py_of_str :: "string option \<Rightarrow> pyval" where
  "py_of_str s = (case s of None \<Rightarrow> PyNone | Some v \<Rightarrow> PyStr v)"

definition slice_to :: "'a list \<Rightarrow> int \<Rightarrow> 'a list" where
  \<comment> \<open>\<open>xs[:c]\<close>; a negative bound counts from the end\<close>
  "slice_to xs c = (if 0 \<le> c then take (nat c) xs else take (length xs - nat (- c)) xs)"

definition truncate_to_cursor :: "'a list \<Rightarrow> int option \<Rightarrow> 'a list" where
  \<comment> \<open>\<open>if cursor: packages = packages[:cursor]\<close>\<close>
  "truncate_to_cursor packages cursor =
     (case cursor of None \<Rightarrow> packages
      | Some c \<Rightarrow> if c \<noteq> 0 then slice_to packages c else packages)"

record datetime =
  year :: nat
  month :: nat
  day :: nat
  hour :: nat
  minute :: nat
  second :: nat
  microsecond :: nat

definition dt_key :: "datetime \<Rightarrow> nat \<times> nat \<times> nat \<times> nat \<times> nat \<times> nat \<times> nat" where
  \<comment> \<open>dates compare field by field, the year first\<close>
  "dt_key d = (year d, month d, day d, hour d, minute d, second d, microsecond d)"

definition dt_less :: "datetime \<Rightarrow> datetime \<Rightarrow> bool" where
  "dt_less a b = (dt_key a < dt_key b)"

definition between :: "datetime \<Rightarrow> datetime \<Rightarrow> datetime \<Rightarrow> bool" where
  \<comment> \<open>SQL \<open>x BETWEEN lo AND hi\<close>: both bounds included\<close>
  "between x lo hi = (dt_key lo \<le> dt_key x \<and> dt_key x \<le> dt_key hi)"

definition digit :: "nat \<Rightarrow> char" where
  "digit n = ''0123456789'' ! (n mod 10)"

definition strftime_Ymd :: "datetime \<Rightarrow> string" where
  \<comment> \<open>\<open>strftime('%Y-%m-%d')\<close> on a year of four digits: four digits, two digits, two digits\<close>
  "strftime_Ymd d =
     [digit (year d div 1000), digit (year d div 100), digit (year d div 10), digit (year d)]
     @ ''-'' @ [digit (month d div 10), digit (month d)]
     @ ''-'' @ [digit (day d div 10), digit (day d)]"

section \<open>The catalog and the protocol data\<close>

text \<open>
  \<open>Package\<close> is the catalog's dataset row as the handler reads it: \<open>dataset.id\<close>,
  \<open>dataset.name\<close>, \<open>dataset.metadata_created\<close> and \<open>dataset.extras\<close>. \<open>PackageRevision\<close>
  is a row of the catalog's revision table: the handler reads its column
  \<open>revision_timestamp\<close> only; \<open>pr_id\<close> is the id of the dataset that the row is a revision
  of, by which a revision belongs to a dataset. \<open>package_dict\<close> is the dictionary the
  \<open>package_show\<close> action returns, with the keys that \<open>_record_for_dataset\<close> reads; tags
  and agents are dictionaries themselves.
\<close>

record Package =
  pkg_id :: string
  pkg_name :: string
  metadata_created :: "datetime option"
  extras :: pydict

record PackageRevision =
  pr_id :: string
  revision_timestamp :: datetime

record package_dict =
  pd_id :: string
  pd_name :: "string option"
  pd_title :: "string option"
  pd_url :: "string option"
  pd_notes :: "string option"
  pd_tags :: "pydict list option"
  pd_license_title :: "string option"
  pd_temporal_coverage_begin :: "string option"
  pd_temporal_coverage_end :: "string option"
  pd_geographic_coverage :: "string option"

record Group =
  group_id :: string
  group_name :: string
  group_description :: string
  group_packages :: "Package list"

record config =
  site_title :: "string option"
  email_to :: "string option"
  ckan_site_url :: string

text \<open>
  Everything the handler reaches outside its own file is a field of \<open>env\<close>: the site
  configuration, the router's \<open>url_for\<close> (controller, action, id), the \<open>package_show\<close>
  action, the four agent helpers of \<open>ckanext.kata.helpers\<close>, the rows that
  \<open>Session.query(Package).all()\<close> and \<open>Session.query(Group).all()\<close> return, in the order
  of the query, and the rows of the revision table. \<open>group_packages\<close> holds the rows of \<open>group.packages(return_query=True)\<close>;
  a query object is represented by its rows, since slicing and iterating a query give what
  slicing and iterating its rows give. These collaborators are total functions here:
  their own faults pass through the handler unchanged and are not modelled. What the
  source reads without a guard (\<open>package['id']\<close>, the \<open>ckan.site_url\<close> setting that it
  concatenates) has a plain type, what it reads with a fallback is an option.
\<close>

record env =
  config :: config
  url_for :: "string \<Rightarrow> string \<Rightarrow> string option \<Rightarrow> string"
  package_show :: "string \<Rightarrow> package_dict"
  get_authors :: "package_dict \<Rightarrow> pydict list"
  get_distributors :: "package_dict \<Rightarrow> pydict list"
  get_contacts :: "package_dict \<Rightarrow> pydict list"
  get_contributors :: "package_dict \<Rightarrow> pydict list"
  Session_packages :: "Package list"
  Session_groups :: "Group list"
  Session_revisions :: "PackageRevision list"

datatype Header =
  Header (h_identifier: string) (h_datestamp: "datetime option") (h_setspec: "string list")
    (h_deleted: bool)

datatype Metadata = Metadata (getMap: pydict)

type_synonym oai_record = "Header \<times> Metadata \<times> pyval"

record Identify =
  repositoryName :: string
  baseURL :: string
  protocolVersion :: string
  adminEmails :: "string option list"
  earliestDatestamp :: datetime
  deletedRecord :: string
  granularity :: string
  compression :: "string list"

datatype error = IdDoesNotExistError string

text \<open>
  Modelled from the spec: \<open>Package.get\<close> is a class method of CKAN's model and is not
  part of this repository. The spec names it "get package by id" and has \<open>getRecord\<close>
  "look up one dataset by id"; a row is the first one of the catalog with that id.
\<close>

definition Package_get :: "env \<Rightarrow> string \<Rightarrow> Package option" where
  "Package_get e reference = find (\<lambda>p. pkg_id p = reference) (Session_packages e)"

text \<open>
  Modelled from the spec: \<open>Group.get\<close> is a class method of CKAN's model and is not part
  of this repository. The spec has the handler "resolve it to a group by name".
\<close>

definition Group_get :: "env \<Rightarrow> string \<Rightarrow> Group option" where
  "Group_get e reference = find (\<lambda>g. group_name g = reference) (Session_groups e)"

text \<open>
  The date filters are queries over \<open>Package\<close> whose condition is on a column of
  \<open>PackageRevision\<close>: \<open>Session.query(Package).filter(PackageRevision.revision_timestamp >
  from_)\<close>, and the same on the query of a group's datasets. The source joins the two
  tables nowhere, so the query selects from their product: a row of \<open>Package\<close> is
  paired with every revision row, whichever dataset that row belongs to, and the pairs
  whose revision row satisfies the condition are kept. The query returns each dataset of
  a kept pair once. Hence all rows of the queried table come back as soon as one
  revision row satisfies the condition, and none come back otherwise. The three
  conditions are the source's \<open>revision_timestamp > from_\<close>, \<open>revision_timestamp < until\<close>
  and \<open>between(revision_timestamp, from_, until)\<close>.
\<close>

definition revision_gt :: "datetime \<Rightarrow> PackageRevision \<Rightarrow> bool" where
  "revision_gt from' r = dt_less from' (revision_timestamp r)"

definition revision_lt :: "datetime \<Rightarrow> PackageRevision \<Rightarrow> bool" where
  "revision_lt until r = dt_less (revision_timestamp r) until"

definition revision_between :: "datetime \<Rightarrow> datetime \<Rightarrow> PackageRevision \<Rightarrow> bool" where
  "revision_between from' until r = between (revision_timestamp r) from' until"

definition query_filter :: "env \<Rightarrow> 'a list \<Rightarrow> (PackageRevision \<Rightarrow> bool) \<Rightarrow> 'a list" where
  \<comment> \<open>\<open>query.filter(condition on PackageRevision)\<close>, the tables not joined\<close>
  "query_filter e rows condition =
     (if filter condition (Session_revisions e) = [] then [] else rows)"

section \<open>The protocol handler \<open>CKANServer\<close>\<close>

subsection \<open>\<open>identify\<close>\<close>

definition identify :: "env \<Rightarrow> Identify" where
  "identify e =
     \<lparr> repositoryName =
         (if truthy_str (site_title (config e)) then get_default (site_title (config e)) []
          else ''repository''),
       baseURL = url_for e ''ckanext.oaipmh.controller:OAIPMHController'' ''index'' None,
       protocolVersion = ''2.0'',
       adminEmails = [email_to (config e)],
       earliestDatestamp =
         \<lparr> year = 2004, month = 1, day = 1, hour = 0, minute = 0, second = 0, microsecond = 0 \<rparr>,
       deletedRecord = ''no'',
       granularity = ''YYYY-MM-DD'',
       compression = [''identity''] \<rparr>"

subsection \<open>\<open>_record_for_dataset\<close>\<close>

text \<open>
  The function is embedded in the order of its source: the coverage string (lines 44 to
  54), the dictionary literal \<open>meta\<close> (lines 56 to 73), the merge with the extras (lines
  75 and 76), the loop that wraps every value that is not a list (lines 77 to 84), and
  the returned triple (lines 86 and 87). The literal lists its keys in the order of the
  source; a dictionary is read by key, so the order Python gives them does not matter.
\<close>

definition coverage_of :: "package_dict \<Rightarrow> string" where
  "coverage_of package =
     (let coverage = [];
          coverage_begin = get_default (pd_temporal_coverage_begin package) [];
          coverage_end = get_default (pd_temporal_coverage_end package) [];
          geographic = get_default (pd_geographic_coverage package) [];
          coverage = (if geographic \<noteq> [] then geographic else coverage);
          coverage =
            (if coverage_begin \<noteq> [] \<or> coverage_end \<noteq> [] then
               (let coverage = (if coverage \<noteq> [] then coverage @ ''; '' else coverage)
                in coverage @ (coverage_begin @ '' - '' @ coverage_end))
             else coverage)
      in coverage)"

definition agent_names :: "pydict list \<Rightarrow> pyval list" where
  \<comment> \<open>\<open>[agent['name'] for agent in agents if 'name' in agent]\<close>\<close>
  "agent_names agents =
     [dict_get_item agent ''name''. agent \<leftarrow> agents, contains_key ''name'' agent]"

definition computed_meta :: "env \<Rightarrow> Package \<Rightarrow> pydict" where
  "computed_meta e dataset =
     (let package = package_show e (pkg_id dataset);
          coverage = coverage_of package
      in [(''title'',
             PyList [py_of_str (if truthy_str (pd_title package) then pd_title package
                                else pd_name package)]),
          (''creator'', PyList (agent_names (get_authors e package))),
          (''publisher'',
             PyList (agent_names (get_distributors e package @ get_contacts e package))),
          (''contributor'', PyList (agent_names (get_contributors e package))),
          (''identifier'',
             PyList [PyStr (ckan_site_url (config e)
                            @ url_for e ''package'' ''read'' (Some (pd_id package))),
                     PyStr (if truthy_str (pd_url package) then get_default (pd_url package) []
                            else pd_id package)]),
          (''type'', PyList [PyStr ''dataset'']),
          (''description'',
             if truthy_str (pd_notes package) then PyList [py_of_str (pd_notes package)]
             else PyNone),
          (''subject'',
             if get_default (pd_tags package) [] \<noteq> [] then
               PyList [dict_get_item tag ''display_name''.
                       tag \<leftarrow> get_default (pd_tags package) []]
             else PyNone),
          (''date'',
             case metadata_created dataset of
               Some created \<Rightarrow> PyList [PyStr (strftime_Ymd created)]
             | None \<Rightarrow> PyNone),
          (''rights'',
             if truthy_str (pd_license_title package)
             then PyList [py_of_str (pd_license_title package)] else PyNone),
          (''coverage'', if coverage \<noteq> [] then PyList [PyStr coverage] else PyNone)])"

definition merged_meta :: "env \<Rightarrow> Package \<Rightarrow> pydict" where
  \<comment> \<open>\<open>meta = dict(meta.items() + dataset.extras.items())\<close>\<close>
  "merged_meta e dataset =
     (let meta = computed_meta e dataset;
          iters = items (extras dataset)
      in py_dict (items meta @ iters))"

definition normalize_step :: "pydict \<Rightarrow> string \<times> pyval \<Rightarrow> pydict" where
  \<comment> \<open>the body of the loop over \<open>meta.items()\<close>\<close>
  "normalize_step metadata kv =
     (case kv of (key, val) \<Rightarrow>
        if \<not> isinstance_list val then dict_setitem metadata key (PyList [val])
        else dict_setitem metadata key val)"

definition record_for_dataset :: "env \<Rightarrow> Package \<Rightarrow> oai_record" where
  "record_for_dataset e dataset =
     (let meta = merged_meta e dataset;
          metadata = foldl normalize_step [] (items meta)
      in (Header (pkg_id dataset) (metadata_created dataset) [pkg_name dataset] False,
          Metadata metadata, PyNone))"

definition metadata_of :: "oai_record \<Rightarrow> pydict" where
  \<comment> \<open>the mapping inside the \<open>Metadata\<close> of a record triple\<close>
  "metadata_of r = getMap (fst (snd r))"

definition as_list :: "pyval \<Rightarrow> pyval" where
  \<comment> \<open>the value the loop stores for \<open>value\<close>\<close>
  "as_list v = (if isinstance_list v then v else PyList [v])"

subsection \<open>\<open>getRecord\<close>\<close>

definition getRecord :: "env \<Rightarrow> string \<Rightarrow> string \<Rightarrow> error + oai_record" where
  "getRecord e metadataPrefix identifier =
     (case Package_get e identifier of
        None \<Rightarrow> Inl (IdDoesNotExistError (''No dataset with id '' @ identifier))
      | Some package \<Rightarrow> Inr (record_for_dataset e package))"

subsection \<open>\<open>listIdentifiers\<close>\<close>

text \<open>
  \<open>listIdentifiers_packages\<close> is the list \<open>packages\<close> when the final loop starts (lines
  101 to 127): each assignment of the source is one binding, in the source's order. The
  arguments \<open>from_\<close> and \<open>until\<close> are dates or \<open>None\<close>, and a date is always true.
\<close>

definition listIdentifiers_packages ::
  "env \<Rightarrow> string option \<Rightarrow> int option \<Rightarrow> datetime option \<Rightarrow> datetime option \<Rightarrow> Package list"
where
  "listIdentifiers_packages e set' cursor from' until =
     (let packages = [];
          packages =
            (if \<not> truthy_str set' then
               (if from' = None \<and> until = None then Session_packages e
                else
                  (let packages =
                         (case from' of None \<Rightarrow> packages
                          | Some f \<Rightarrow> query_filter e (Session_packages e) (revision_gt f));
                       packages =
                         (case until of None \<Rightarrow> packages
                          | Some u \<Rightarrow> query_filter e (Session_packages e) (revision_lt u));
                       packages =
                         (case (from', until) of
                            (Some f, Some u) \<Rightarrow>
                              query_filter e (Session_packages e) (revision_between f u)
                          | _ \<Rightarrow> packages)
                   in packages))
             else
               (case Group_get e (get_default set' []) of
                  None \<Rightarrow> packages
                | Some grp \<Rightarrow>
                    (let packages = group_packages grp;
                         packages =
                           (case (from', until) of
                              (Some f, None) \<Rightarrow> query_filter e packages (revision_gt f)
                            | _ \<Rightarrow> packages);
                         packages =
                           (case (from', until) of
                              (None, Some u) \<Rightarrow> query_filter e packages (revision_lt u)
                            | _ \<Rightarrow> packages);
                         packages =
                           (case (from', until) of
                              (Some f, Some u) \<Rightarrow> query_filter e packages (revision_between f u)
                            | _ \<Rightarrow> packages)
                     in packages)));
          packages = truncate_to_cursor packages cursor
      in packages)"

definition header_for :: "Package \<Rightarrow> Header" where
  \<comment> \<open>\<open>common.Header(package.id, package.metadata_created, [package.name], False)\<close>\<close>
  "header_for package =
     Header (pkg_id package) (metadata_created package) [pkg_name package] False"

definition listIdentifiers ::
  "env \<Rightarrow> string \<Rightarrow> string option \<Rightarrow> int option \<Rightarrow> datetime option \<Rightarrow> datetime option
     \<Rightarrow> int option \<Rightarrow> Header list"
where
  "listIdentifiers e metadataPrefix set' cursor from' until batch_size =
     map header_for (listIdentifiers_packages e set' cursor from' until)"

subsection \<open>\<open>listMetadataFormats\<close>\<close>

definition listMetadataFormats :: "(string \<times> string \<times> string) list" where
  "listMetadataFormats =
     [(''oai_dc'',
       ''http://www.openarchives.org/OAI/2.0/oai_dc.xsd'',
       ''http://www.openarchives.org/OAI/2.0/oai_dc/''),
      (''rdf'',
       ''http://www.openarchives.org/OAI/2.0/rdf.xsd'',
       ''http://www.openarchives.org/OAI/2.0/rdf/'')]"

subsection \<open>\<open>listRecords\<close>\<close>

text \<open>
  \<open>listRecords_packages\<close> is \<open>packages\<close> when the final loop of \<open>listRecords\<close> starts
  (lines 147 to 174). Without a set the three date tests follow the test for "no dates"
  with no \<open>else\<close>; with a set every date branch ends in \<open>.all()\<close> and the branch without
  dates keeps the query.
\<close>

definition listRecords_packages ::
  "env \<Rightarrow> string option \<Rightarrow> int option \<Rightarrow> datetime option \<Rightarrow> datetime option \<Rightarrow> Package list"
where
  "listRecords_packages e set' cursor from' until =
     (let packages = [];
          packages =
            (if \<not> truthy_str set' then
               (let packages =
                      (if from' = None \<and> until = None then Session_packages e else packages);
                    packages =
                      (case from' of None \<Rightarrow> packages
                       | Some f \<Rightarrow> query_filter e (Session_packages e) (revision_gt f));
                    packages =
                      (case until of None \<Rightarrow> packages
                       | Some u \<Rightarrow> query_filter e (Session_packages e) (revision_lt u));
                    packages =
                      (case (from', until) of
                         (Some f, Some u) \<Rightarrow>
                           query_filter e (Session_packages e) (revision_between f u)
                       | _ \<Rightarrow> packages)
                in packages)
             else
               (case Group_get e (get_default set' []) of
                  None \<Rightarrow> packages
                | Some grp \<Rightarrow>
                    (let packages = group_packages grp;
                         packages =
                           (case (from', until) of
                              (Some f, None) \<Rightarrow> query_filter e packages (revision_gt f)
                            | _ \<Rightarrow> packages);
                         packages =
                           (case (from', until) of
                              (None, Some u) \<Rightarrow> query_filter e packages (revision_lt u)
                            | _ \<Rightarrow> packages);
                         packages =
                           (case (from', until) of
                              (Some f, Some u) \<Rightarrow> query_filter e packages (revision_between f u)
                            | _ \<Rightarrow> packages)
                     in packages)));
          packages = truncate_to_cursor packages cursor
      in packages)"

definition listRecords ::
  "env \<Rightarrow> string \<Rightarrow> string option \<Rightarrow> int option \<Rightarrow> datetime option \<Rightarrow> datetime option
     \<Rightarrow> int option \<Rightarrow> oai_record list"
where
  "listRecords e metadataPrefix set' cursor from' until batch_size =
     map (record_for_dataset e) (listRecords_packages e set' cursor from' until)"

subsection \<open>\<open>listSets\<close>\<close>

definition listSets :: "env \<Rightarrow> int option \<Rightarrow> int option \<Rightarrow> (string \<times> string \<times> string) list" where
  "listSets e cursor batch_size =
     (let groups =
            (case cursor of None \<Rightarrow> Session_groups e
             | Some c \<Rightarrow> if c = 0 then Session_groups e else slice_to (Session_groups e) c)
      in map (\<lambda>dataset. (group_id dataset, group_name dataset, group_description dataset))
           groups)"

section \<open>An example catalog\<close>

text \<open>
  Five datasets created in the years 2001 to 2005, each with one revision row dated the
  first of January of its year, one group holding two of them, and a site without a
  configured title. The first dataset carries geographic and temporal
  coverage, the second only the start of its temporal coverage, the others none; the
  fourth overrides the title through its extras.
\<close>

definition example_date :: "nat \<Rightarrow> datetime" where
  "example_date y =
     \<lparr> year = y, month = 1, day = 1, hour = 0, minute = 0, second = 0, microsecond = 0 \<rparr>"

definition example_package_dict :: "string \<Rightarrow> package_dict" where
  "example_package_dict i =
     \<lparr> pd_id = i, pd_name = Some i, pd_title = Some ''A dataset'', pd_url = None,
       pd_notes = None, pd_tags = None, pd_license_title = None,
       pd_temporal_coverage_begin =
         (if i = ''finland'' \<or> i = ''begin-only'' then Some ''2000-01-01'' else None),
       pd_temporal_coverage_end = (if i = ''finland'' then Some ''2001-01-01'' else None),
       pd_geographic_coverage = (if i = ''finland'' then Some ''Finland'' else None) \<rparr>"

definition example_dataset :: "string \<Rightarrow> nat \<Rightarrow> pydict \<Rightarrow> Package" where
  "example_dataset i y ex =
     \<lparr> pkg_id = i, pkg_name = i, metadata_created = Some (example_date y), extras = ex \<rparr>"

definition example_packages :: "Package list" where
  "example_packages =
     [example_dataset ''finland'' 2001 [],
      example_dataset ''begin-only'' 2002 [],
      example_dataset ''plain'' 2003 [(''funder'', PyStr ''Academy'')],
      example_dataset ''retitled'' 2004 [(''title'', PyStr ''Override''), (''funder'', PyInt 7)],
      example_dataset ''last'' 2005 []]"

definition example_revisions :: "PackageRevision list" where
  "example_revisions =
     [\<lparr> pr_id = ''finland'', revision_timestamp = example_date 2001 \<rparr>,
      \<lparr> pr_id = ''begin-only'', revision_timestamp = example_date 2002 \<rparr>,
      \<lparr> pr_id = ''plain'', revision_timestamp = example_date 2003 \<rparr>,
      \<lparr> pr_id = ''retitled'', revision_timestamp = example_date 2004 \<rparr>,
      \<lparr> pr_id = ''last'', revision_timestamp = example_date 2005 \<rparr>]"

definition revised_in :: "env \<Rightarrow> (PackageRevision \<Rightarrow> bool) \<Rightarrow> Package list" where
  \<comment> \<open>the datasets that have a revision of their own satisfying the condition\<close>
  "revised_in e condition =
     filter (\<lambda>p. filter (\<lambda>r. pr_id r = pkg_id p \<and> condition r) (Session_revisions e) \<noteq> [])
       (Session_packages e)"

definition example_env :: env where
  "example_env =
     \<lparr> config = \<lparr> site_title = None, email_to = Some ''admin@example.org'',
                  ckan_site_url = ''http://example.org'' \<rparr>,
       url_for = (\<lambda>controller action i. ''/'' @ controller @ ''/'' @ action),
       package_show = example_package_dict,
       get_authors = (\<lambda>package. [[(''name'', PyStr ''Ada''), (''role'', PyStr ''author'')]]),
       get_distributors = (\<lambda>package. []),
       get_contacts = (\<lambda>package. [[(''email'', PyStr ''c@example.org'')]]),
       get_contributors = (\<lambda>package. []),
       Session_packages = example_packages,
       Session_groups =
         [\<lparr> group_id = ''g1'', group_name = ''climate'', group_description = ''Climate data'',
            group_packages = [example_dataset ''finland'' 2001 [],
                              example_dataset ''plain'' 2003 [(''funder'', PyStr ''Academy'')]] \<rparr>],
       Session_revisions = example_revisions \<rparr>"

section \<open>Dictionaries built by insertion\<close>

lemma map_of_foldl_setitem:
  "map_of (foldl (\<lambda>d (k, v). dict_setitem d k v) d0 xs) = map_of d0 ++ map_of (rev xs)"
proof (induction xs arbitrary: d0)
  case Nil
  then show ?case by simp
next
  case (Cons x xs)
  obtain k v where x: "x = (k, v)" by (cases x)
  have "map_of (foldl (\<lambda>d (k, v). dict_setitem d k v) d0 (x # xs))
          = map_of (dict_setitem d0 k v) ++ map_of (rev xs)"
    by (simp add: x Cons.IH)
  also have "\<dots> = (map_of d0)(k \<mapsto> v) ++ map_of (rev xs)"
    by (simp only: dict_setitem_def update_conv')
  also have "\<dots> = map_of d0 ++ map_of (rev (x # xs))"
    by (auto simp: x fun_eq_iff map_add_def split: option.splits)
  finally show ?case .
qed

lemma distinct_foldl_setitem:
  "distinct (map fst d0) \<Longrightarrow>
   distinct (map fst (foldl (\<lambda>d (k, v). dict_setitem d k v) d0 xs))"
  by (induction xs arbitrary: d0) (auto simp: dict_setitem_def distinct_update)

lemma distinct_py_dict: "distinct (map fst (py_dict xs))"
  by (simp add: py_dict_def distinct_foldl_setitem)

lemma map_of_rev_distinct: "distinct (map fst xs) \<Longrightarrow> map_of (rev xs) = map_of xs"
proof (induction xs)
  case Nil
  then show ?case by simp
next
  case (Cons x xs)
  obtain k v where x: "x = (k, v)" by (cases x)
  from Cons.prems have k: "map_of xs k = None" and d: "distinct (map fst xs)"
    by (simp_all add: x map_of_eq_None_iff)
  show ?case
    using k by (auto simp: x Cons.IH [OF d] fun_eq_iff map_add_def split: option.splits)
qed

lemma map_of_py_dict: "map_of (py_dict xs) = map_of (rev xs)"
  by (simp add: py_dict_def map_of_foldl_setitem)

lemma in_set_updateD:
  "(a, b) \<in> set (AList.update k v d) \<Longrightarrow> (a, b) = (k, v) \<or> (a, b) \<in> set d"
  by (induction d) (auto split: if_splits)

section \<open>The record of a dataset\<close>

lemma normalize_step_as_list: "normalize_step d (k, v) = dict_setitem d k (as_list v)"
  by (simp add: normalize_step_def as_list_def)

lemma map_of_foldl_normalize:
  "map_of (foldl normalize_step d0 xs)
     = map_of d0 ++ map_of (rev (map (\<lambda>(k, v). (k, as_list v)) xs))"
proof -
  have "foldl normalize_step d0 xs
          = foldl (\<lambda>d (k, v). dict_setitem d k v) d0 (map (\<lambda>(k, v). (k, as_list v)) xs)"
    by (induction xs arbitrary: d0) (auto simp: normalize_step_as_list)
  then show ?thesis by (simp add: map_of_foldl_setitem)
qed

lemma metadata_lookup:
  "map_of (metadata_of (record_for_dataset e dataset)) k =
     map_option as_list (map_of (merged_meta e dataset) k)"
proof -
  let ?m = "merged_meta e dataset"
  have d: "distinct (map fst ?m)"
    by (simp add: merged_meta_def Let_def distinct_py_dict)
  have "map_of (metadata_of (record_for_dataset e dataset)) k
          = map_of (rev (map (\<lambda>(k, v). (k, as_list v)) ?m)) k"
    by (simp add: metadata_of_def record_for_dataset_def Let_def items_def
        map_of_foldl_normalize)
  also have "\<dots> = map_of (map (\<lambda>(k, v). (k, as_list v)) ?m) k"
    using d by (simp add: rev_map [symmetric] map_of_rev_distinct comp_def case_prod_unfold)
  also have "\<dots> = map_option as_list (map_of ?m k)"
    by (simp add: map_of_map)
  finally show ?thesis .
qed

lemma distinct_computed_meta: "distinct (map fst (computed_meta e dataset))"
  by (simp add: computed_meta_def Let_def)

lemma map_of_merged_meta:
  "map_of (merged_meta e dataset) k =
     (case map_of (rev (extras dataset)) k of
        Some v \<Rightarrow> Some v
      | None \<Rightarrow> map_of (computed_meta e dataset) k)"
  by (simp add: merged_meta_def Let_def items_def map_of_py_dict map_add_def
      map_of_rev_distinct [OF distinct_computed_meta])

lemma foldl_normalize_lists:
  "\<forall>(k, v) \<in> set d0. isinstance_list v \<Longrightarrow>
   \<forall>(k, v) \<in> set (foldl normalize_step d0 xs). isinstance_list v"
proof (induction xs arbitrary: d0)
  case Nil
  then show ?case by simp
next
  case (Cons x xs)
  obtain k v where x: "x = (k, v)" by (cases x)
  have "\<forall>(a, b) \<in> set (normalize_step d0 x). isinstance_list b"
    using Cons.prems
    by (auto simp: x normalize_step_def dict_setitem_def dest!: in_set_updateD)
  then show ?case
    using Cons.IH by simp
qed

lemma record_values_are_lists:
  "(k, v) \<in> set (metadata_of (record_for_dataset e dataset)) \<Longrightarrow> isinstance_list v"
  using foldl_normalize_lists [of "[]" "items (merged_meta e dataset)"]
  by (auto simp: metadata_of_def record_for_dataset_def Let_def)

lemma coverage_lookup:
  assumes "\<not> contains_key ''coverage'' (extras dataset)"
  shows "map_of (metadata_of (record_for_dataset e dataset)) ''coverage''
           = Some (if coverage_of (package_show e (pkg_id dataset)) \<noteq> []
                   then PyList [PyStr (coverage_of (package_show e (pkg_id dataset)))]
                   else PyList [PyNone])"
proof -
  have "map_of (rev (extras dataset)) ''coverage'' = None"
    using assms by (simp add: contains_key_def map_of_eq_None_iff)
  then have "map_of (merged_meta e dataset) ''coverage''
               = map_of (computed_meta e dataset) ''coverage''"
    by (simp add: map_of_merged_meta)
  also have "\<dots> = Some (if coverage_of (package_show e (pkg_id dataset)) \<noteq> []
                   then PyList [PyStr (coverage_of (package_show e (pkg_id dataset)))]
                   else PyNone)"
    by (simp add: computed_meta_def Let_def)
  finally show ?thesis
    by (simp add: metadata_lookup as_list_def)
qed

section \<open>The selection of the list verbs\<close>


lemma listIdentifiers_packages_cursor:
  "listIdentifiers_packages e set' cursor from' until
     = truncate_to_cursor (listIdentifiers_packages e set' None from' until) cursor"
  by (simp add: listIdentifiers_packages_def Let_def truncate_to_cursor_def)

lemma listRecords_packages_cursor:
  "listRecords_packages e set' cursor from' until
     = truncate_to_cursor (listRecords_packages e set' None from' until) cursor"
  by (simp add: listRecords_packages_def Let_def truncate_to_cursor_def)


lemma same_packages:
  "listRecords_packages e set' cursor from' until
     = listIdentifiers_packages e set' cursor from' until"
  by (cases from'; cases until)
     (simp_all add: listRecords_packages_def listIdentifiers_packages_def Let_def)

lemma no_set_packages:
  assumes "\<not> truthy_str set'"
  shows "listIdentifiers_packages e set' None (Some f) None
           = query_filter e (Session_packages e) (revision_gt f)"
    and "listIdentifiers_packages e set' None None (Some u)
           = query_filter e (Session_packages e) (revision_lt u)"
    and "listIdentifiers_packages e set' None (Some f) (Some u)
           = query_filter e (Session_packages e) (revision_between f u)"
  using assms
  by (simp_all add: listIdentifiers_packages_def Let_def truncate_to_cursor_def)

lemma unknown_set_packages:
  assumes "s \<noteq> []" and "Group_get e s = None"
  shows "listIdentifiers_packages e (Some s) cursor from' until = []"
    and "listRecords_packages e (Some s) cursor from' until = []"
  using assms
  by (cases cursor; simp add: listIdentifiers_packages_def listRecords_packages_def Let_def
      truthy_str_def get_default_def truncate_to_cursor_def slice_to_def)+

lemmas example_defs =
  example_env_def example_packages_def example_dataset_def example_package_dict_def
  example_date_def example_revisions_def

lemmas record_defs =
  metadata_of_def record_for_dataset_def merged_meta_def computed_meta_def coverage_of_def
  agent_names_def normalize_step_def py_dict_def items_def dict_setitem_def dict_get_item_def
  contains_key_def get_default_def truthy_str_def py_of_str_def strftime_Ymd_def digit_def
  Let_def

section \<open>\<open>getRecord\<close> and the unknown identifier\<close>

text \<open>
  C1. \<open>getRecord\<close> raises the "identifier does not exist" error if and only if no dataset
  of the catalog has the given identifier; when a dataset has it, \<open>getRecord\<close> raises
  nothing and returns a triple (header, metadata, \<open>None\<close>) whose header carries the
  requested identifier.
\<close>

theorem getRecord_idDoesNotExist:
  "((\<exists>msg. getRecord e metadataPrefix identifier = Inl (IdDoesNotExistError msg))
      \<longleftrightarrow> \<not> (\<exists>p \<in> set (Session_packages e). pkg_id p = identifier))
   \<and> ((\<exists>p \<in> set (Session_packages e). pkg_id p = identifier) \<longrightarrow>
        (\<exists>h m. getRecord e metadataPrefix identifier = Inr (h, m, PyNone) \<and> h_identifier h = identifier))"
proof (cases "Package_get e identifier")
  case None
  then have "\<not> (\<exists>p \<in> set (Session_packages e). pkg_id p = identifier)"
    by (auto simp: Package_get_def find_None_iff)
  with None show ?thesis
    by (simp add: getRecord_def)
next
  case (Some p)
  then have "p \<in> set (Session_packages e)" and "pkg_id p = identifier"
    by (auto simp: Package_get_def find_Some_iff)
  with Some show ?thesis
    by (auto simp: getRecord_def record_for_dataset_def Let_def)
qed

theorem getRecord_idDoesNotExist_witness:
  "example_dataset ''plain'' 2003 [(''funder'', PyStr ''Academy'')]
     \<in> set (Session_packages example_env)
   \<and> (\<exists>h m. getRecord example_env ''oai_dc'' ''plain'' = Inr (h, m, PyNone)
            \<and> h_identifier h = ''plain'')
   \<and> (\<exists>msg. getRecord example_env ''oai_dc'' ''missing'' = Inl (IdDoesNotExistError msg))"
proof -
  have a: "\<exists>p \<in> set (Session_packages example_env). pkg_id p = ''plain''"
    by (simp add: example_defs)
  have b: "\<not> (\<exists>p \<in> set (Session_packages example_env). pkg_id p = ''missing'')"
    by (simp add: example_defs)
  have c: "example_dataset ''plain'' 2003 [(''funder'', PyStr ''Academy'')]
             \<in> set (Session_packages example_env)"
    by (simp add: example_env_def example_packages_def)
  show ?thesis
    using a b c
      getRecord_idDoesNotExist [of example_env "''oai_dc''" "''plain''"]
      getRecord_idDoesNotExist [of example_env "''oai_dc''" "''missing''"]
    by blast
qed

section \<open>Every metadata value is a list\<close>

text \<open>
  C2. For every dataset, every value of the metadata mapping that the record-building
  step returns is a list, never a bare scalar, for every field including those merged in
  from the extras; the same holds for the record of \<open>getRecord\<close> and for every record of
  \<open>listRecords\<close>.
\<close>

theorem metadata_values_are_lists:
  "(\<forall>(k, v) \<in> set (metadata_of (record_for_dataset e dataset)). isinstance_list v)
   \<and> (\<forall>r. getRecord e metadataPrefix identifier = Inr r \<longrightarrow>
          (\<forall>(k, v) \<in> set (metadata_of r). isinstance_list v))
   \<and> (\<forall>r \<in> set (listRecords e metadataPrefix set' cursor from' until batch_size).
          \<forall>(k, v) \<in> set (metadata_of r). isinstance_list v)"
proof (intro conjI)
  show "\<forall>(k, v) \<in> set (metadata_of (record_for_dataset e dataset)). isinstance_list v"
    using record_values_are_lists by blast
  show "\<forall>r. getRecord e metadataPrefix identifier = Inr r \<longrightarrow>
          (\<forall>(k, v) \<in> set (metadata_of r). isinstance_list v)"
  proof (intro allI impI)
    fix r
    assume "getRecord e metadataPrefix identifier = Inr r"
    then obtain p where "r = record_for_dataset e p"
      by (auto simp: getRecord_def split: option.splits)
    then show "\<forall>(k, v) \<in> set (metadata_of r). isinstance_list v"
      using record_values_are_lists by blast
  qed
  show "\<forall>r \<in> set (listRecords e metadataPrefix set' cursor from' until batch_size).
          \<forall>(k, v) \<in> set (metadata_of r). isinstance_list v"
    using record_values_are_lists
    by (auto simp: listRecords_def)
qed

theorem metadata_values_are_lists_witness:
  "(''funder'', PyList [PyStr ''Academy''])
     \<in> set (metadata_of (record_for_dataset example_env
               (example_dataset ''plain'' 2003 [(''funder'', PyStr ''Academy'')])))
   \<and> isinstance_list (PyList [PyStr ''Academy''])"
proof -
  have mem: "(''funder'', PyList [PyStr ''Academy''])
     \<in> set (metadata_of (record_for_dataset example_env
               (example_dataset ''plain'' 2003 [(''funder'', PyStr ''Academy'')])))"
    by (simp add: record_defs example_defs)
  show ?thesis
    using mem
      metadata_values_are_lists [where e = example_env
        and dataset = "example_dataset ''plain'' 2003 [(''funder'', PyStr ''Academy'')]"]
    by blast
qed

section \<open>The coverage field\<close>

text \<open>
  The claim that the coverage key is absent when the dataset has neither geographic nor
  temporal coverage fails: the dictionary literal binds \<open>coverage\<close> to \<open>None\<close>, and the
  loop stores \<open>[None]\<close> for it. The dataset \<open>plain\<close> of the example has no coverage, and
  its record maps \<open>coverage\<close> to the list that holds \<open>None\<close>.
\<close>

theorem coverage_absent_counterexample:
  "pd_geographic_coverage (package_show example_env ''plain'') = None
   \<and> pd_temporal_coverage_begin (package_show example_env ''plain'') = None
   \<and> pd_temporal_coverage_end (package_show example_env ''plain'') = None
   \<and> map_of (metadata_of (record_for_dataset example_env
         (example_dataset ''plain'' 2003 [(''funder'', PyStr ''Academy'')]))) ''coverage''
       = Some (PyList [PyNone])"
  by (simp add: record_defs example_defs)

text \<open>
  C3, amended. In the record built for a dataset whose extras have no key \<open>coverage\<close>:
  with geographic coverage "Finland", temporal begin "2000-01-01" and temporal end
  "2001-01-01" the coverage field is \<open>["Finland; 2000-01-01 - 2001-01-01"]\<close>; with only
  the temporal begin "2000-01-01" it is \<open>["2000-01-01 - "]\<close>; with neither geographic nor
  temporal coverage the key is present and its value is the one-element list \<open>[None]\<close>.
\<close>

theorem coverage_composition:
  assumes "\<not> contains_key ''coverage'' (extras dataset)"
  shows "(pd_geographic_coverage (package_show e (pkg_id dataset)) = Some ''Finland''
          \<and> pd_temporal_coverage_begin (package_show e (pkg_id dataset)) = Some ''2000-01-01''
          \<and> pd_temporal_coverage_end (package_show e (pkg_id dataset)) = Some ''2001-01-01''
          \<longrightarrow> map_of (metadata_of (record_for_dataset e dataset)) ''coverage''
                = Some (PyList [PyStr ''Finland; 2000-01-01 - 2001-01-01'']))
         \<and> (pd_geographic_coverage (package_show e (pkg_id dataset)) = None
          \<and> pd_temporal_coverage_begin (package_show e (pkg_id dataset)) = Some ''2000-01-01''
          \<and> pd_temporal_coverage_end (package_show e (pkg_id dataset)) = None
          \<longrightarrow> map_of (metadata_of (record_for_dataset e dataset)) ''coverage''
                = Some (PyList [PyStr ''2000-01-01 - '']))
         \<and> (pd_geographic_coverage (package_show e (pkg_id dataset)) = None
          \<and> pd_temporal_coverage_begin (package_show e (pkg_id dataset)) = None
          \<and> pd_temporal_coverage_end (package_show e (pkg_id dataset)) = None
          \<longrightarrow> map_of (metadata_of (record_for_dataset e dataset)) ''coverage''
                = Some (PyList [PyNone]))"
  by (simp add: coverage_lookup [OF assms] coverage_of_def get_default_def Let_def)

theorem coverage_composition_witness:
  "\<not> contains_key ''coverage'' []
   \<and> map_of (metadata_of (record_for_dataset example_env (example_dataset ''finland'' 2001 [])))
        ''coverage'' = Some (PyList [PyStr ''Finland; 2000-01-01 - 2001-01-01''])
   \<and> map_of (metadata_of (record_for_dataset example_env (example_dataset ''begin-only'' 2002 [])))
        ''coverage'' = Some (PyList [PyStr ''2000-01-01 - ''])
   \<and> map_of (metadata_of (record_for_dataset example_env (example_dataset ''last'' 2005 [])))
        ''coverage'' = Some (PyList [PyNone])"
proof -
  have x: "\<not> contains_key ''coverage'' (extras (example_dataset i y []))" for i y
    by (simp add: contains_key_def example_dataset_def)
  show ?thesis
    using coverage_composition [OF x [of "''finland''" 2001], where e = example_env]
      coverage_composition [OF x [of "''begin-only''" 2002], where e = example_env]
      coverage_composition [OF x [of "''last''" 2005], where e = example_env]
    by (simp add: contains_key_def example_env_def example_dataset_def example_package_dict_def)
qed

section \<open>Date ranges without a set\<close>

text \<open>
  Without a set, a date filter selects all datasets of the catalog or none: all of them
  when some revision row of the catalog, of whatever dataset, satisfies the condition.
\<close>

lemma date_range_all_or_none:
  assumes "\<not> truthy_str set'"
  shows "listIdentifiers e metadataPrefix set' cursor (Some f) None batch_size
           = map header_for (truncate_to_cursor
               (if filter (\<lambda>r. dt_key f < dt_key (revision_timestamp r)) (Session_revisions e) = []
                then [] else Session_packages e) cursor)"
    and "listIdentifiers e metadataPrefix set' cursor None (Some u) batch_size
           = map header_for (truncate_to_cursor
               (if filter (\<lambda>r. dt_key (revision_timestamp r) < dt_key u) (Session_revisions e) = []
                then [] else Session_packages e) cursor)"
    and "listIdentifiers e metadataPrefix set' cursor (Some f) (Some u) batch_size
           = map header_for (truncate_to_cursor
               (if filter (\<lambda>r. dt_key f \<le> dt_key (revision_timestamp r)
                               \<and> dt_key (revision_timestamp r) \<le> dt_key u)
                     (Session_revisions e) = []
                then [] else Session_packages e) cursor)"
proof -
  have ids: "listIdentifiers e metadataPrefix set' cursor a b batch_size
               = map header_for
                   (truncate_to_cursor (listIdentifiers_packages e set' None a b) cursor)"
    for a b
    using listIdentifiers_packages_cursor [of e set' cursor a b]
    by (simp add: listIdentifiers_def)
  show "listIdentifiers e metadataPrefix set' cursor (Some f) None batch_size
           = map header_for (truncate_to_cursor
               (if filter (\<lambda>r. dt_key f < dt_key (revision_timestamp r)) (Session_revisions e) = []
                then [] else Session_packages e) cursor)"
    by (simp only: ids no_set_packages [OF assms] query_filter_def revision_gt_def [abs_def]
        dt_less_def)
  show "listIdentifiers e metadataPrefix set' cursor None (Some u) batch_size
           = map header_for (truncate_to_cursor
               (if filter (\<lambda>r. dt_key (revision_timestamp r) < dt_key u) (Session_revisions e) = []
                then [] else Session_packages e) cursor)"
    by (simp only: ids no_set_packages [OF assms] query_filter_def revision_lt_def [abs_def]
        dt_less_def)
  show "listIdentifiers e metadataPrefix set' cursor (Some f) (Some u) batch_size
           = map header_for (truncate_to_cursor
               (if filter (\<lambda>r. dt_key f \<le> dt_key (revision_timestamp r)
                               \<and> dt_key (revision_timestamp r) \<le> dt_key u)
                     (Session_revisions e) = []
                then [] else Session_packages e) cursor)"
    by (simp only: ids no_set_packages [OF assms] query_filter_def
        revision_between_def [abs_def] between_def)
qed

text \<open>
  C4. The claim: with no set, only \<open>from\<close> given returns exactly the datasets whose
  revision timestamp is strictly greater than \<open>from\<close>, only \<open>until\<close> exactly those
  strictly less than \<open>until\<close>, and both exactly those in the closed interval. The code
  does not do this. On the example catalog, whose five datasets are revised on the first
  of January of 2001 to 2005, \<open>listIdentifiers\<close> and \<open>listRecords\<close> with \<open>from\<close> on the
  first of January 2002 return all five datasets, where the datasets revised after that
  day are the last three; with \<open>until\<close> 2004 and with both bounds they return all five
  again, where the first three and the middle three are meant.
\<close>

theorem date_filter_returns_every_dataset:
  "map h_identifier (listIdentifiers example_env ''oai_dc'' None None
       (Some (example_date 2002)) None None)
     = [''finland'', ''begin-only'', ''plain'', ''retitled'', ''last'']
   \<and> map pkg_id (revised_in example_env (revision_gt (example_date 2002)))
     = [''plain'', ''retitled'', ''last'']
   \<and> map h_identifier (listIdentifiers example_env ''oai_dc'' None None
       None (Some (example_date 2004)) None)
     = [''finland'', ''begin-only'', ''plain'', ''retitled'', ''last'']
   \<and> map pkg_id (revised_in example_env (revision_lt (example_date 2004)))
     = [''finland'', ''begin-only'', ''plain'']
   \<and> map h_identifier (listIdentifiers example_env ''oai_dc'' None None
       (Some (example_date 2002)) (Some (example_date 2004)) None)
     = [''finland'', ''begin-only'', ''plain'', ''retitled'', ''last'']
   \<and> map pkg_id (revised_in example_env
       (revision_between (example_date 2002) (example_date 2004)))
     = [''begin-only'', ''plain'', ''retitled'']
   \<and> map (h_identifier \<circ> fst) (listRecords example_env ''oai_dc'' None None
       (Some (example_date 2002)) None None)
     = [''finland'', ''begin-only'', ''plain'', ''retitled'', ''last'']"
proof -
  have n: "\<not> truthy_str None"
    by (simp add: truthy_str_def)
  have code: "map h_identifier (listIdentifiers example_env ''oai_dc'' None None
       (Some (example_date 2002)) None None)
     = [''finland'', ''begin-only'', ''plain'', ''retitled'', ''last'']"
    "map h_identifier (listIdentifiers example_env ''oai_dc'' None None
       None (Some (example_date 2004)) None)
     = [''finland'', ''begin-only'', ''plain'', ''retitled'', ''last'']"
    "map h_identifier (listIdentifiers example_env ''oai_dc'' None None
       (Some (example_date 2002)) (Some (example_date 2004)) None)
     = [''finland'', ''begin-only'', ''plain'', ''retitled'', ''last'']"
    by (simp_all add: date_range_all_or_none [OF n] truncate_to_cursor_def header_for_def
        dt_key_def example_defs)
  have meant: "map pkg_id (revised_in example_env (revision_gt (example_date 2002)))
     = [''plain'', ''retitled'', ''last'']"
    "map pkg_id (revised_in example_env (revision_lt (example_date 2004)))
     = [''finland'', ''begin-only'', ''plain'']"
    "map pkg_id (revised_in example_env
       (revision_between (example_date 2002) (example_date 2004)))
     = [''begin-only'', ''plain'', ''retitled'']"
    by (simp_all add: revised_in_def revision_gt_def revision_lt_def revision_between_def
        dt_less_def between_def dt_key_def example_defs)
  have recs: "map (h_identifier \<circ> fst) (listRecords example_env ''oai_dc'' None None
       (Some (example_date 2002)) None None)
     = map h_identifier (listIdentifiers example_env ''oai_dc'' None None
       (Some (example_date 2002)) None None)"
    by (simp add: listRecords_def listIdentifiers_def same_packages record_for_dataset_def
        header_for_def Let_def comp_def)
  show ?thesis
    by (simp only: code meant recs simp_thms)
qed

section \<open>A set that names no group\<close>

text \<open>
  The claim that every set name that resolves to no group gives an empty list fails for
  the empty name: both verbs test \<open>if not set\<close>, which takes the empty string for "no
  set given", and then query all datasets. The example catalog has no group with the
  empty name, and \<open>listIdentifiers\<close> with that set returns its five datasets.
\<close>

theorem empty_set_name_counterexample:
  "Group_get example_env [] = None
   \<and> map h_identifier (listIdentifiers example_env ''oai_dc'' (Some []) None None None None)
       = [''finland'', ''begin-only'', ''plain'', ''retitled'', ''last'']"
  by (simp add: Group_get_def listIdentifiers_def listIdentifiers_packages_def
      truncate_to_cursor_def header_for_def truthy_str_def Let_def example_defs)

text \<open>
  C5, amended. For every non-empty set name that does not resolve to an existing group,
  \<open>listIdentifiers\<close> and \<open>listRecords\<close>, with any from, until and cursor arguments, return
  the empty list and raise no error.
\<close>

theorem unknown_nonempty_set_is_empty:
  assumes "s \<noteq> []" and "Group_get e s = None"
  shows "listIdentifiers e metadataPrefix (Some s) cursor from' until batch_size = []
         \<and> listRecords e metadataPrefix (Some s) cursor from' until batch_size = []"
  by (simp add: listIdentifiers_def listRecords_def unknown_set_packages [OF assms])

theorem unknown_nonempty_set_is_empty_witness:
  "''unknown'' \<noteq> [] \<and> Group_get example_env ''unknown'' = None
   \<and> listIdentifiers example_env ''oai_dc'' (Some ''unknown'') (Some 3)
        (Some (example_date 2002)) None None = []
   \<and> listRecords example_env ''oai_dc'' (Some ''unknown'') (Some 3)
        (Some (example_date 2002)) None None = []"
proof -
  have g: "Group_get example_env ''unknown'' = None"
    by (simp add: Group_get_def example_env_def)
  have s: "''unknown'' \<noteq> []"
    by simp
  show ?thesis
    using g s unknown_nonempty_set_is_empty [OF s g]
    by simp
qed

section \<open>\<open>listRecords\<close> selects what \<open>listIdentifiers\<close> selects\<close>

text \<open>
  C6. For every catalog and every combination of set, cursor, from and until,
  \<open>listRecords\<close> selects exactly the same datasets, in the same order, as
  \<open>listIdentifiers\<close> does with those arguments; \<open>listIdentifiers\<close> maps each selected
  dataset to its header and \<open>listRecords\<close> maps it to the full triple, whose first
  component is that header.
\<close>

theorem listRecords_same_selection:
  "listRecords_packages e set' cursor from' until
     = listIdentifiers_packages e set' cursor from' until
   \<and> listIdentifiers e metadataPrefix set' cursor from' until batch_size
       = map header_for (listIdentifiers_packages e set' cursor from' until)
   \<and> listRecords e metadataPrefix set' cursor from' until batch_size
       = map (record_for_dataset e) (listIdentifiers_packages e set' cursor from' until)
   \<and> map fst (listRecords e metadataPrefix set' cursor from' until batch_size)
       = listIdentifiers e metadataPrefix set' cursor from' until batch_size"
proof -
  have hdr: "fst (record_for_dataset e p) = header_for p" for p
    by (simp add: record_for_dataset_def header_for_def Let_def)
  show ?thesis
    by (simp add: same_packages listRecords_def listIdentifiers_def hdr comp_def)
qed

theorem listRecords_same_selection_witness:
  "listIdentifiers example_env ''oai_dc'' (Some ''climate'') None None None None
     = map header_for [example_dataset ''finland'' 2001 [],
                       example_dataset ''plain'' 2003 [(''funder'', PyStr ''Academy'')]]
   \<and> listRecords example_env ''oai_dc'' (Some ''climate'') None None None None
     = map (record_for_dataset example_env)
         [example_dataset ''finland'' 2001 [],
          example_dataset ''plain'' 2003 [(''funder'', PyStr ''Academy'')]]"
proof -
  have sel: "listIdentifiers_packages example_env (Some ''climate'') None None None
               = [example_dataset ''finland'' 2001 [],
                  example_dataset ''plain'' 2003 [(''funder'', PyStr ''Academy'')]]"
    by (simp add: listIdentifiers_packages_def Group_get_def truthy_str_def get_default_def
        truncate_to_cursor_def Let_def example_env_def)
  show ?thesis
    using listRecords_same_selection [where e = example_env and set' = "Some ''climate''"
        and cursor = None and from' = None and until = None and metadataPrefix = "''oai_dc''"
        and batch_size = None]
    by (simp only: sel)
qed

section \<open>The cursor\<close>



text \<open>
  C10. A cursor equal to 0 behaves as no cursor: \<open>listIdentifiers\<close>, \<open>listRecords\<close> and
  \<open>listSets\<close> return the full list, not its first 0 entries.
\<close>

theorem zero_cursor_is_no_cursor:
  "listIdentifiers e metadataPrefix set' (Some 0) from' until batch_size
     = listIdentifiers e metadataPrefix set' None from' until batch_size
   \<and> listRecords e metadataPrefix set' (Some 0) from' until batch_size
     = listRecords e metadataPrefix set' None from' until batch_size
   \<and> listSets e (Some 0) batch_size = listSets e None batch_size"
proof (intro conjI)
  show "listIdentifiers e metadataPrefix set' (Some 0) from' until batch_size
          = listIdentifiers e metadataPrefix set' None from' until batch_size"
    using listIdentifiers_packages_cursor [of e set' "Some 0" from' until]
    by (simp add: listIdentifiers_def truncate_to_cursor_def)
  show "listRecords e metadataPrefix set' (Some 0) from' until batch_size
          = listRecords e metadataPrefix set' None from' until batch_size"
    using listRecords_packages_cursor [of e set' "Some 0" from' until]
    by (simp add: listRecords_def truncate_to_cursor_def)
  show "listSets e (Some 0) batch_size = listSets e None batch_size"
    by (simp add: listSets_def)
qed

theorem zero_cursor_is_no_cursor_witness:
  "listSets example_env (Some 0) None = [(''g1'', ''climate'', ''Climate data'')]
   \<and> map h_identifier (listIdentifiers example_env ''oai_dc'' None (Some 0) None None None)
       = [''finland'', ''begin-only'', ''plain'', ''retitled'', ''last'']"
proof -
  have full: "listSets example_env None None = [(''g1'', ''climate'', ''Climate data'')]"
    "map h_identifier (listIdentifiers example_env ''oai_dc'' None None None None None)
       = [''finland'', ''begin-only'', ''plain'', ''retitled'', ''last'']"
    by (simp_all add: listSets_def listIdentifiers_def listIdentifiers_packages_def
        truncate_to_cursor_def header_for_def truthy_str_def Let_def example_defs)
  show ?thesis
    using zero_cursor_is_no_cursor [where e = example_env and set' = None and from' = None
        and until = None and metadataPrefix = "''oai_dc''" and batch_size = None]
    by (simp only: full simp_thms)
qed

section \<open>\<open>identify\<close>\<close>

text \<open>
  C8. \<open>identify\<close> takes no inputs and never fails: it is a total function of the site
  configuration and the router, the same descriptor for the same configuration whatever
  the catalog holds. Its protocol version is "2.0", its deleted-record policy "no", its
  date granularity "YYYY-MM-DD", its compression \<open>["identity"]\<close>, and its repository name
  is "repository" when the configuration has no site title.
\<close>

theorem identify_descriptor:
  "protocolVersion (identify e) = ''2.0''
   \<and> deletedRecord (identify e) = ''no''
   \<and> granularity (identify e) = ''YYYY-MM-DD''
   \<and> compression (identify e) = [''identity'']
   \<and> (site_title (config e) = None \<longrightarrow> repositoryName (identify e) = ''repository'')
   \<and> (config e = config e' \<and> url_for e = url_for e' \<longrightarrow> identify e = identify e')"
  by (simp add: identify_def truthy_str_def)

theorem identify_descriptor_witness:
  "site_title (config example_env) = None
   \<and> repositoryName (identify example_env) = ''repository''
   \<and> identify (example_env \<lparr> Session_packages := [], Session_groups := [] \<rparr>)
       = identify example_env"
proof -
  let ?e' = "example_env \<lparr> Session_packages := [], Session_groups := [] \<rparr>"
  have a: "site_title (config example_env) = None"
    by (simp add: example_env_def)
  have b: "config example_env = config ?e' \<and> url_for example_env = url_for ?e'"
    by simp
  show ?thesis
    using a b identify_descriptor [of example_env ?e']
    by metis
qed

section \<open>Merging the extras\<close>

text \<open>
  C9. When the extras of a dataset are merged into the computed metadata mapping, the
  merge order alone decides: for every key bound both by the computed fields and by the
  extras, the value of the extras, which comes later, replaces the computed one, and a
  key bound on one side only keeps its value. The extras are a dictionary, so their keys
  are distinct.
\<close>

theorem merge_extras_overwrite:
  assumes "distinct (map fst (extras dataset))"
  shows "map_of (merged_meta e dataset) k =
           (case map_of (extras dataset) k of
              Some v \<Rightarrow> Some v
            | None \<Rightarrow> map_of (computed_meta e dataset) k)"
  by (simp add: map_of_merged_meta map_of_rev_distinct [OF assms])

theorem merge_extras_overwrite_witness:
  "distinct (map fst (extras (example_dataset ''retitled'' 2004
       [(''title'', PyStr ''Override''), (''funder'', PyInt 7)])))
   \<and> map_of (merged_meta example_env (example_dataset ''retitled'' 2004
       [(''title'', PyStr ''Override''), (''funder'', PyInt 7)])) ''title''
       = Some (PyStr ''Override'')
   \<and> map_of (merged_meta example_env (example_dataset ''retitled'' 2004
       [(''title'', PyStr ''Override''), (''funder'', PyInt 7)])) ''funder'' = Some (PyInt 7)
   \<and> map_of (merged_meta example_env (example_dataset ''retitled'' 2004
       [(''title'', PyStr ''Override''), (''funder'', PyInt 7)])) ''type''
       = Some (PyList [PyStr ''dataset''])"
proof -
  let ?d = "example_dataset ''retitled'' 2004
              [(''title'', PyStr ''Override''), (''funder'', PyInt 7)]"
  have d: "distinct (map fst (extras ?d))"
    by (simp add: example_dataset_def)
  show ?thesis
    using d merge_extras_overwrite [OF d, of example_env "''title''"]
      merge_extras_overwrite [OF d, of example_env "''funder''"]
      merge_extras_overwrite [OF d, of example_env "''type''"]
    by (simp add: example_dataset_def computed_meta_def Let_def)
qed

end
